theory Spec2Isabelle
  imports Main
begin

section \<open>Text operations (collaborationService)\<close>

text \<open>
  The operation type of the collaboration service.  The source interface is
  \<^verbatim>\<open>TextOperation { type; userId; position?; text?; length?; content?; timestamp?; fromUserId? }\<close>.
  Optional fields are options; numbers are integers; a string is the list of its
  code units.  The fields \<^verbatim>\<open>type\<close>, \<^verbatim>\<open>text\<close> and \<^verbatim>\<open>length\<close> carry the
  prefix \<open>op_\<close> because the plain names are taken.
\<close>

datatype OpType = Insert | Delete | Sync | Retry

record TextOperation =
  op_type :: OpType
  userId :: string
  position :: "int option"
  op_text :: "string option"
  op_length :: "int option"
  content :: "string option"
  timestamp :: "int option"
  fromUserId :: "string option"

text \<open>JavaScript truthiness of an optional string and of an optional number.\<close>

definition truthy_str :: "string option \<Rightarrow> bool" where
  "truthy_str s = (case s of None \<Rightarrow> False | Some v \<Rightarrow> v \<noteq> [])"

definition truthy_num :: "int option \<Rightarrow> bool" where
  "truthy_num n = (case n of None \<Rightarrow> False | Some v \<Rightarrow> v \<noteq> 0)"

text \<open>
  \<^verbatim>\<open>String.prototype.substring\<close>: both indices are clamped to the range from 0 to
  the length of the string, and swapped when the first exceeds the second; with one
  argument the end is the length of the string.
\<close>

definition clampIndex :: "int \<Rightarrow> nat \<Rightarrow> nat" where
  "clampIndex i len = nat (min (max i 0) (int len))"

definition substring :: "string \<Rightarrow> int \<Rightarrow> int \<Rightarrow> string" where
  "substring s start stop =
     (let a = clampIndex start (length s); b = clampIndex stop (length s)
      in take (max a b - min a b) (drop (min a b) s))"

definition substringFrom :: "string \<Rightarrow> int \<Rightarrow> string" where
  "substringFrom s start = drop (clampIndex start (length s)) s"

text \<open>\<^verbatim>\<open>applyOperation(content, operation)\<close> of the collaboration service.\<close>

definition applyOperation :: "string \<Rightarrow> TextOperation \<Rightarrow> string" where
  "applyOperation c operation =
     (if op_type operation = Insert \<and> truthy_str (op_text operation) \<and> position operation \<noteq> None then
        substring c 0 (the (position operation)) @ the (op_text operation)
          @ substringFrom c (the (position operation))
      else if op_type operation = Delete \<and> truthy_num (op_length operation) \<and> position operation \<noteq> None then
        substring c 0 (the (position operation))
          @ substringFrom c (the (position operation) + the (op_length operation))
      else if op_type operation = Sync \<and> truthy_str (content operation) then
        the (content operation)
      else c)"

text \<open>
  \<^verbatim>\<open>applyInsert\<close> and \<^verbatim>\<open>applyDelete\<close> of the local transport, and the content
  that \<^verbatim>\<open>sendOperation\<close> writes back to the store: the stored content is read
  with \<^verbatim>\<open>getItem(...) || ''\<close>, so an absent entry counts as the empty string.
\<close>

definition applyInsert :: "string \<Rightarrow> int \<Rightarrow> string \<Rightarrow> string" where
  "applyInsert c pos t = substring c 0 pos @ t @ substringFrom c pos"

definition applyDelete :: "string \<Rightarrow> int \<Rightarrow> int \<Rightarrow> string" where
  "applyDelete c pos len = substring c 0 pos @ substringFrom c (pos + len)"

definition sendOperation :: "string option \<Rightarrow> TextOperation \<Rightarrow> string" where
  "sendOperation stored operation =
     (let c = (case stored of None \<Rightarrow> [] | Some v \<Rightarrow> v) in
      if op_type operation = Insert \<and> truthy_str (op_text operation) \<and> position operation \<noteq> None then
        applyInsert c (the (position operation)) (the (op_text operation))
      else if op_type operation = Delete \<and> truthy_num (op_length operation) \<and> position operation \<noteq> None then
        applyDelete c (the (position operation)) (the (op_length operation))
      else if op_type operation = Sync \<and> truthy_str (content operation) then
        the (content operation)
      else c)"

text \<open>Replaying a sequence of operations, one after the other, on a buffer.\<close>

definition replay :: "string \<Rightarrow> TextOperation list \<Rightarrow> string" where
  "replay c ops = foldl applyOperation c ops"

section \<open>Participants and sessions of the collaboration service\<close>

text \<open>
  A participant as both the server and the clients store it.  The status \<open>ACTIVE\<close> is
  the value \<^verbatim>\<open>'active'\<close>, which the server assigns and which lies outside the
  client's enumeration of \<open>ONLINE\<close>, \<open>AWAY\<close> and \<open>OFFLINE\<close>.  The fields \<^verbatim>\<open>id\<close> and
  \<^verbatim>\<open>name\<close> carry the prefix \<open>user_\<close>.  A cursor position is the triple of
  position, line and column.
\<close>

datatype UserStatus = ONLINE | AWAY | OFFLINE | ACTIVE

type_synonym CursorPosition = "int \<times> int \<times> int"

type_synonym SelectionRange = "CursorPosition \<times> CursorPosition"

record User =
  user_id :: string
  user_name :: string
  color :: "string option"
  status :: UserStatus
  lastActive :: "int option"
  socketId :: "string option"
  cursorPosition :: "CursorPosition option"
  selection :: "SelectionRange option"

record CollaborationSession =
  cs_id :: string
  documentId :: string
  cs_users :: "User list"
  cs_content :: string
  operations :: "TextOperation list"

text \<open>
  \<^verbatim>\<open>executeOperation(sessionId, operation)\<close>: stamps the operation with the current
  time, applies it to the content of the session and appends it to the history.  It
  returns \<^verbatim>\<open>null\<close> when there is no such session.
\<close>

definition executeOperation ::
  "(string \<rightharpoonup> CollaborationSession) \<Rightarrow> string \<Rightarrow> TextOperation \<Rightarrow> int
     \<Rightarrow> TextOperation option \<times> (string \<rightharpoonup> CollaborationSession)" where
  "executeOperation sessions sessionId operation now =
     (case sessions sessionId of
        None \<Rightarrow> (None, sessions)
      | Some session \<Rightarrow>
          (let fullOperation = operation\<lparr>timestamp := Some now\<rparr>
           in (Some fullOperation,
               sessions(sessionId \<mapsto> session
                 \<lparr>cs_content := applyOperation (cs_content session) fullOperation,
                  operations := operations session @ [fullOperation]\<rparr>))))"

section \<open>Validation and transformation of operations\<close>

text \<open>
  Two operations count as coming from the same user when both carry a non-empty
  \<^verbatim>\<open>fromUserId\<close> and the two are equal; this is the guard that both
  \<^verbatim>\<open>validateOperation\<close> and \<^verbatim>\<open>transformOperation\<close> use.
\<close>

definition sameUser :: "TextOperation \<Rightarrow> TextOperation \<Rightarrow> bool" where
  "sameUser existingOp incomingOp =
     (truthy_str (fromUserId existingOp) \<and> truthy_str (fromUserId incomingOp)
      \<and> fromUserId existingOp = fromUserId incomingOp)"

text \<open>\<^verbatim>\<open>op.timestamp || 0\<close>, \<^verbatim>\<open>(op.text || '').length\<close> and \<^verbatim>\<open>op.length || 0\<close>.\<close>

definition timestampOr0 :: "TextOperation \<Rightarrow> int" where
  "timestampOr0 operation = (case timestamp operation of None \<Rightarrow> 0 | Some t \<Rightarrow> t)"

definition textLength :: "TextOperation \<Rightarrow> int" where
  "textLength operation = (case op_text operation of None \<Rightarrow> 0 | Some t \<Rightarrow> int (length t))"

definition lengthOr0 :: "TextOperation \<Rightarrow> int" where
  "lengthOr0 operation = (case op_length operation of None \<Rightarrow> 0 | Some n \<Rightarrow> n)"

text \<open>
  The result of a validation.  The source gives the reason as a message; the two
  messages are the two constructors, the second with the number of conflicts that the
  message interpolates.
\<close>

datatype Reason = MissingTimestamp | ConflictsWith nat

record OperationValidationResult =
  isValid :: bool
  reason :: "Reason option"

definition conflictsWith :: "TextOperation \<Rightarrow> TextOperation \<Rightarrow> bool" where
  "conflictsWith incomingOp existingOp =
     (if sameUser existingOp incomingOp then False
      else \<bar>timestampOr0 existingOp - timestampOr0 incomingOp\<bar> < 1000)"

definition validateOperation :: "TextOperation \<Rightarrow> TextOperation list \<Rightarrow> OperationValidationResult" where
  "validateOperation incomingOp existingOps =
     (if existingOps = [] then \<lparr>isValid = True, reason = None\<rparr>
      else if \<not> truthy_num (timestamp incomingOp) then
        \<lparr>isValid = False, reason = Some MissingTimestamp\<rparr>
      else
        (let conflictingOps = filter (conflictsWith incomingOp) existingOps
         in if length conflictingOps > 0 then
              \<lparr>isValid = False, reason = Some (ConflictsWith (length conflictingOps))\<rparr>
            else \<lparr>isValid = True, reason = None\<rparr>))"

text \<open>
  Comparisons of optional numbers: a comparison with \<^verbatim>\<open>undefined\<close> is false.
\<close>

definition le_opt :: "int option \<Rightarrow> int option \<Rightarrow> bool" where
  "le_opt a b = (case (a, b) of (Some x, Some y) \<Rightarrow> x \<le> y | _ \<Rightarrow> False)"

definition lt_opt :: "int option \<Rightarrow> int option \<Rightarrow> bool" where
  "lt_opt a b = (case (a, b) of (Some x, Some y) \<Rightarrow> x < y | _ \<Rightarrow> False)"

text \<open>
  One iteration of the loop of \<^verbatim>\<open>transformOperation\<close>, on the operation
  transformed so far and the next existing operation.  The position is only updated
  under a comparison that holds, hence only when it is defined.
\<close>

definition transformStep :: "TextOperation \<Rightarrow> TextOperation \<Rightarrow> TextOperation" where
  "transformStep transformedOp existingOp =
     (if sameUser existingOp transformedOp then transformedOp
      else if op_type existingOp = Insert \<and> op_type transformedOp = Insert then
        (if le_opt (position existingOp) (position transformedOp)
         then transformedOp\<lparr>position := map_option (\<lambda>p. p + textLength existingOp) (position transformedOp)\<rparr>
         else transformedOp)
      else if op_type existingOp = Delete \<and> op_type transformedOp = Insert then
        (if lt_opt (position existingOp) (position transformedOp)
         then transformedOp\<lparr>position := map_option (\<lambda>p. p - lengthOr0 existingOp) (position transformedOp)\<rparr>
         else transformedOp)
      else if op_type existingOp = Insert \<and> op_type transformedOp = Delete then
        (if le_opt (position existingOp) (position transformedOp)
         then transformedOp\<lparr>position := map_option (\<lambda>p. p + textLength existingOp) (position transformedOp)\<rparr>
         else transformedOp)
      else if op_type existingOp = Delete \<and> op_type transformedOp = Delete then
        (if lt_opt (position existingOp) (position transformedOp)
         then transformedOp\<lparr>position := map_option (\<lambda>p. p - lengthOr0 existingOp) (position transformedOp)\<rparr>
         else transformedOp)
      else transformedOp)"

text \<open>
  \<^verbatim>\<open>transformOperation(incomingOp, existingOps)\<close>: the existing operations are
  sorted by ascending timestamp (the sort is stable) and the loop runs over them.
\<close>

definition transformOperation :: "TextOperation \<Rightarrow> TextOperation list \<Rightarrow> TextOperation" where
  "transformOperation incomingOp existingOps =
     (if existingOps = [] then incomingOp
      else foldl transformStep incomingOp (sort_key timestampOr0 existingOps))"

text \<open>
  The shift that one prior operation causes to a position \<open>p\<close>, in the words of the
  specification and without the helpers of the model: a prior Insert at or before
  \<open>p\<close> moves it forward by the length of the inserted text, a prior Delete before \<open>p\<close>
  moves it back by the deleted length, and nothing else moves it.
\<close>

definition shift :: "int \<Rightarrow> TextOperation \<Rightarrow> int" where
  "shift p prior =
     (case (op_type prior, position prior) of
        (Insert, Some q) \<Rightarrow>
          (if q \<le> p then p + (case op_text prior of None \<Rightarrow> 0 | Some t \<Rightarrow> int (length t)) else p)
      | (Delete, Some q) \<Rightarrow>
          (if q < p then p - (case op_length prior of None \<Rightarrow> 0 | Some n \<Rightarrow> n) else p)
      | _ \<Rightarrow> p)"

text \<open>
  The position as claim C2 words it: every prior operation is compared with the
  position \<open>p\<close> of the incoming operation itself, and the shifts are added up.
\<close>

definition claimedPosition :: "int \<Rightarrow> TextOperation list \<Rightarrow> int" where
  "claimedPosition p recent = p + sum_list (map (\<lambda>prior. shift p prior - p) recent)"

section \<open>The session registry of the server\<close>

record Session =
  session_id :: string
  users :: "User list"
  session_content :: string
  lastUpdated :: int

definition MAX_USERS_PER_SESSION :: nat where
  "MAX_USERS_PER_SESSION = 8"

text \<open>
  The two refusals of a join.  The source reports them as the error text of the
  acknowledgement; the constructors name the two texts.
\<close>

datatype JoinError = SessionFull | NameTaken

text \<open>
  Names are compared after \<^verbatim>\<open>String.prototype.toLowerCase\<close>.  That function belongs
  to the platform, not to the repository: the definitions below take it as their
  first argument \<open>toLowerCase\<close>, and what is proved of them holds for every such
  function, the one of the platform included.
\<close>

text \<open>\<^verbatim>\<open>findIndex\<close>; the result \<open>None\<close> is the source's \<open>-1\<close>.\<close>

fun findIndex :: "('a \<Rightarrow> bool) \<Rightarrow> 'a list \<Rightarrow> nat option" where
  "findIndex P [] = None"
| "findIndex P (x # xs) =
     (if P x then Some 0 else (case findIndex P xs of None \<Rightarrow> None | Some i \<Rightarrow> Some (Suc i)))"

definition isDuplicateName :: "(string \<Rightarrow> string) \<Rightarrow> User list \<Rightarrow> string \<Rightarrow> string \<Rightarrow> bool" where
  "isDuplicateName toLowerCase us uid userName =
     list_ex (\<lambda>u. toLowerCase (user_name u) = toLowerCase userName \<and> user_id u \<noteq> uid) us"

text \<open>
  The handler of \<^verbatim>\<open>join\<close> on the server.  The arguments after the registry are the
  session id, the user id and the user name of the request, then the colour drawn for
  the user, the id of the socket and the current time.  The result is the
  acknowledgement (the refusal, or the session whose snapshot is sent to the joiner)
  and the registry afterwards.  An existing entry of the same id is overwritten field
  by field and keeps its cursor and selection.
\<close>

definition join ::
  "(string \<Rightarrow> string) \<Rightarrow> (string \<rightharpoonup> Session) \<Rightarrow> string \<Rightarrow> string \<Rightarrow> string \<Rightarrow> string \<Rightarrow> string \<Rightarrow> int
     \<Rightarrow> (JoinError + Session) \<times> (string \<rightharpoonup> Session)" where
  "join toLowerCase sessions sessionId uid userName userColor socket now =
     (let session = (case sessions sessionId of
                       None \<Rightarrow> \<lparr>session_id = sessionId, users = [], session_content = [],
                                 lastUpdated = now\<rparr>
                     | Some s \<Rightarrow> s);
          sessions1 = sessions(sessionId \<mapsto> session)
      in if length (users session) \<ge> MAX_USERS_PER_SESSION then (Inl SessionFull, sessions1)
         else if isDuplicateName toLowerCase (users session) uid userName then (Inl NameTaken, sessions1)
         else
           (let session' =
                  (case findIndex (\<lambda>u. user_id u = uid) (users session) of
                     Some existingUserIndex \<Rightarrow>
                       session\<lparr>users := (users session)
                         [existingUserIndex := (users session ! existingUserIndex)
                            \<lparr>user_id := uid, user_name := userName, color := Some userColor,
                             status := ACTIVE, lastActive := Some now, socketId := Some socket\<rparr>]\<rparr>
                   | None \<Rightarrow>
                       session\<lparr>users := users session @
                         [\<lparr>user_id = uid, user_name = userName, color = Some userColor,
                           status = ACTIVE, lastActive = Some now, socketId = Some socket,
                           cursorPosition = None, selection = None\<rparr>]\<rparr>)
            in (Inr session', sessions1(sessionId \<mapsto> session'))))"

text \<open>
  The handler of \<^verbatim>\<open>disconnect\<close> on the server, for a socket that has joined the
  session \<open>currentSessionId\<close> as the user \<open>currentUserId\<close>: the entry of the user is
  spliced out of the list.
\<close>

definition disconnect :: "(string \<rightharpoonup> Session) \<Rightarrow> string \<Rightarrow> string \<Rightarrow> (string \<rightharpoonup> Session)" where
  "disconnect sessions currentSessionId currentUserId =
     (case sessions currentSessionId of
        None \<Rightarrow> sessions
      | Some session \<Rightarrow>
          (case findIndex (\<lambda>u. user_id u = currentUserId) (users session) of
             None \<Rightarrow> sessions
           | Some userIndex \<Rightarrow>
               sessions(currentSessionId \<mapsto>
                 session\<lparr>users := take userIndex (users session) @ drop (Suc userIndex) (users session)\<rparr>)))"

text \<open>Joins and leaves as events, and a run of the server over a sequence of them.\<close>

datatype Event =
    JoinEvent string string string string string int
  | LeaveEvent string string

fun step :: "(string \<Rightarrow> string) \<Rightarrow> (string \<rightharpoonup> Session) \<Rightarrow> Event \<Rightarrow> (string \<rightharpoonup> Session)" where
  "step toLowerCase sessions (JoinEvent sessionId uid userName userColor socket now) =
     snd (join toLowerCase sessions sessionId uid userName userColor socket now)"
| "step toLowerCase sessions (LeaveEvent sessionId uid) = disconnect sessions sessionId uid"

definition run ::
  "(string \<Rightarrow> string) \<Rightarrow> (string \<rightharpoonup> Session) \<Rightarrow> Event list \<Rightarrow> (string \<rightharpoonup> Session)" where
  "run toLowerCase sessions events = foldl (step toLowerCase) sessions events"

definition participantCount :: "(string \<rightharpoonup> Session) \<Rightarrow> string \<Rightarrow> nat" where
  "participantCount sessions sessionId =
     (case sessions sessionId of None \<Rightarrow> 0 | Some s \<Rightarrow> length (users s))"

section \<open>The participant registry of the local transport\<close>

text \<open>
  The local transport keeps the participant list of a session in a store shared by
  all clients; \<open>None\<close> is the absent entry.  \<open>connect_local\<close> is the part of
  \<^verbatim>\<open>connect\<close> of the local transport that reads the list, decides and writes it back
  (lines 297 to 333), with the id and the name that the lines before it have settled,
  given by the caller or generated.  The result is the refusal, or the list written
  back.  The lines before it return at once for a client that is already connected
  to the session under that id; that case does not reach this part.
\<close>

definition connect_local ::
  "(string \<Rightarrow> string) \<Rightarrow> User list option \<Rightarrow> string \<Rightarrow> string \<Rightarrow> string \<Rightarrow> int \<Rightarrow> JoinError + User list" where
  "connect_local toLowerCase stored uid userName userColor now =
     (let us = (case stored of None \<Rightarrow> [] | Some v \<Rightarrow> v)
      in if length us \<ge> 8 then Inl SessionFull
         else if isDuplicateName toLowerCase us uid userName then Inl NameTaken
         else Inr (filter (\<lambda>u. user_id u \<noteq> uid) us @
                [\<lparr>user_id = uid, user_name = userName, color = Some userColor, status = ONLINE,
                  lastActive = Some now, socketId = None, cursorPosition = None,
                  selection = None\<rparr>]))"

text \<open>
  The state of a client of the local transport, as far as presence goes: the stored
  participant list and the messages broadcast so far.  Of the messages only the two
  kinds that the presence functions broadcast are needed.
\<close>

datatype Message = LeaveMsg string | SyncMsg "User list"

record ClientState =
  usersData :: "User list option"
  sent :: "Message list"

definition AWAY_TIMEOUT :: int where
  "AWAY_TIMEOUT = 30 * 1000"

definition OFFLINE_TIMEOUT :: int where
  "OFFLINE_TIMEOUT = 5 * 60 * 1000"

definition validateUserStatus :: "UserStatus \<Rightarrow> UserStatus" where
  "validateUserStatus s = (if s = ONLINE \<or> s = AWAY \<or> s = OFFLINE then s else ONLINE)"

text \<open>
  A broadcast message is stored for the other clients and handled by the sender
  itself as well.  \<^verbatim>\<open>receiveMessage\<close> on a sync message stores the list with
  validated statuses; on a leave message with a non-empty user id it calls
  \<^verbatim>\<open>removeUserFromActiveList\<close>, which filters the stored list and broadcasts it.
\<close>

definition receiveSync :: "ClientState \<Rightarrow> User list \<Rightarrow> ClientState" where
  "receiveSync st us = st\<lparr>usersData := Some (map (\<lambda>u. u\<lparr>status := validateUserStatus (status u)\<rparr>) us)\<rparr>"

definition removeUserFromActiveList :: "ClientState \<Rightarrow> string \<Rightarrow> ClientState" where
  "removeUserFromActiveList st uid =
     (case usersData st of
        None \<Rightarrow> st
      | Some us \<Rightarrow>
          (let updatedUsers = filter (\<lambda>u. user_id u \<noteq> uid) us
           in receiveSync (st\<lparr>usersData := Some updatedUsers, sent := sent st @ [SyncMsg updatedUsers]\<rparr>)
                updatedUsers))"

definition receiveMessage :: "ClientState \<Rightarrow> Message \<Rightarrow> ClientState" where
  "receiveMessage st msg =
     (case msg of
        LeaveMsg uid \<Rightarrow> (if uid \<noteq> [] then removeUserFromActiveList st uid else st)
      | SyncMsg us \<Rightarrow> receiveSync st us)"

definition broadcastMessage :: "ClientState \<Rightarrow> Message \<Rightarrow> ClientState" where
  "broadcastMessage st msg = receiveMessage (st\<lparr>sent := sent st @ [msg]\<rparr>) msg"

text \<open>
  The check that \<^verbatim>\<open>startActivityCheck\<close> runs every 10 seconds.  \<open>awayDue\<close> is the
  condition under which it sets a participant to \<open>AWAY\<close>.  The list it writes back has
  the fields of the client's participant type only, so a socket id is dropped.
\<close>

definition awayDue :: "int \<Rightarrow> User \<Rightarrow> bool" where
  "awayDue now user =
     (let currentStatus = validateUserStatus (status user)
      in (currentStatus = ONLINE \<or> currentStatus = OFFLINE) \<and> truthy_num (lastActive user)
         \<and> now - the (lastActive user) > AWAY_TIMEOUT)"

definition activityCheck :: "ClientState \<Rightarrow> int \<Rightarrow> ClientState" where
  "activityCheck st now =
     (let us = (case usersData st of None \<Rightarrow> [] | Some v \<Rightarrow> v);
          hasChanges = list_ex (awayDue now) us;
          updatedUsers = map (\<lambda>user. if awayDue now user then user\<lparr>status := AWAY\<rparr>
                                      else user\<lparr>status := validateUserStatus (status user)\<rparr>) us;
          typedUsers = map (\<lambda>user. user\<lparr>status := validateUserStatus (status user),
                                          socketId := None\<rparr>) updatedUsers
      in if hasChanges then broadcastMessage (st\<lparr>usersData := Some typedUsers\<rparr>) (SyncMsg typedUsers)
         else st)"

text \<open>
  \<^verbatim>\<open>sendHeartbeat(userId)\<close>: refreshes the sender, then drops every participant
  whose last activity is missing or more than \<open>OFFLINE_TIMEOUT\<close> old, broadcasting a
  leave message for each while the list is filtered, and finally stores and
  broadcasts the remaining list when it differs from the one read.
\<close>

definition offlineDue :: "int \<Rightarrow> User \<Rightarrow> bool" where
  "offlineDue now user =
     (\<not> truthy_num (lastActive user) \<or> now - the (lastActive user) > OFFLINE_TIMEOUT)"

definition heartbeatFilter :: "int \<Rightarrow> ClientState \<times> User list \<Rightarrow> User \<Rightarrow> ClientState \<times> User list" where
  "heartbeatFilter now acc user =
     (if offlineDue now user then (broadcastMessage (fst acc) (LeaveMsg (user_id user)), snd acc)
      else (fst acc, snd acc @ [user]))"

definition sendHeartbeat :: "ClientState \<Rightarrow> string \<Rightarrow> int \<Rightarrow> ClientState" where
  "sendHeartbeat st uid now =
     (case usersData st of
        None \<Rightarrow> st
      | Some us \<Rightarrow>
          (let updatedUsers = map (\<lambda>user. if user_id user = uid then user\<lparr>lastActive := Some now\<rparr>
                                          else user) us;
               filtered = foldl (heartbeatFilter now) (st, []) updatedUsers;
               activeUsers = snd filtered;
               st' = (fst filtered)\<lparr>usersData := Some activeUsers\<rparr>
           in if length activeUsers \<noteq> length us \<or> activeUsers \<noteq> us
              then broadcastMessage st' (SyncMsg activeUsers) else st'))"

text \<open>
  \<^verbatim>\<open>cleanupOfflineUsers\<close>, run every 30 seconds: besides the participants that
  \<open>offlineDue\<close> describes it drops every \<open>AWAY\<close> participant idle for more than two
  minutes, and it broadcasts the remaining list only.
\<close>

definition cleanupKeeps :: "int \<Rightarrow> User \<Rightarrow> bool" where
  "cleanupKeeps now user =
     (if offlineDue now user then False
      else if status user = AWAY \<and> now - the (lastActive user) > 2 * 60 * 1000 then False
      else True)"

definition cleanupOfflineUsers :: "ClientState \<Rightarrow> int \<Rightarrow> ClientState" where
  "cleanupOfflineUsers st now =
     (case usersData st of
        None \<Rightarrow> st
      | Some us \<Rightarrow>
          (let activeUsers = filter (cleanupKeeps now) us
           in if length activeUsers \<noteq> length us
              then broadcastMessage (st\<lparr>usersData := Some activeUsers\<rparr>) (SyncMsg activeUsers)
              else st))"

section \<open>Connecting to the broker\<close>
































section \<open>Example data\<close>

text \<open>
  For the examples, a function that agrees with \<^verbatim>\<open>toLowerCase\<close> of the platform on
  strings of ASCII characters: a capital letter (code 65 to 90) becomes the letter 32
  codes further, which is the same code with the bit of weight 32 set.
\<close>

definition lowerASCII :: "string \<Rightarrow> string" where
  "lowerASCII s =
     map (\<lambda>ch. if 65 \<le> (of_char ch :: nat) \<and> (of_char ch :: nat) \<le> 90
               then (case ch of Char b0 b1 b2 b3 b4 b5 b6 b7 \<Rightarrow> Char b0 b1 b2 b3 b4 True b6 b7)
               else ch) s"

text \<open>A participant entry with the given id and name, and a session at capacity.\<close>

definition participant :: "string \<Rightarrow> string \<Rightarrow> User" where
  "participant uid userName =
     \<lparr>user_id = uid, user_name = userName, color = Some ''#F44336'', status = ONLINE,
      lastActive = Some 1000, socketId = None, cursorPosition = None, selection = None\<rparr>"

definition fullHouse :: "User list" where
  "fullHouse =
     [participant ''u1'' ''ann'', participant ''u2'' ''bob'', participant ''u3'' ''cy'',
      participant ''u4'' ''dee'', participant ''u5'' ''eve'', participant ''u6'' ''fay'',
      participant ''u7'' ''gus'', participant ''u8'' ''hal'']"

definition fullSession :: "string \<rightharpoonup> Session" where
  "fullSession = [''s1'' \<mapsto> \<lparr>session_id = ''s1'', users = fullHouse, session_content = ''text'',
                               lastUpdated = 1000\<rparr>]"


definition twoClients :: ClientState where
  "twoClients = \<lparr>usersData = Some [participant ''u1'' ''ann'', (participant ''u2'' ''bob'')\<lparr>status := AWAY\<rparr>],
                  sent = []\<rparr>"

section \<open>Applying operations to the document\<close>

lemma substring_prefix: "substring c 0 p = take (nat p) c"
  by (auto simp: substring_def clampIndex_def Let_def min_def max_def)

lemma substringFrom_drop: "substringFrom c p = drop (nat p) c"
  by (auto simp: substringFrom_def clampIndex_def min_def max_def)

lemma applyOperation_Insert:
  "applyOperation c (operation\<lparr>op_type := Insert, position := Some p, op_text := Some t\<rparr>)
     = take (nat p) c @ t @ drop (nat p) c"
  by (simp add: applyOperation_def truthy_str_def substring_prefix substringFrom_drop)

lemma applyOperation_Delete:
  "applyOperation c (operation\<lparr>op_type := Delete, position := Some p, op_length := Some (int n)\<rparr>)
     = take (nat p) c @ drop (nat (p + int n)) c"
  by (simp add: applyOperation_def truthy_num_def substring_prefix substringFrom_drop)

lemma applyOperation_Sync:
  "applyOperation c (operation\<lparr>op_type := Sync, content := Some c'\<rparr>) = (if c' = [] then c else c')"
  by (simp add: applyOperation_def truthy_str_def)

lemma sendOperation_applyOperation:
  "sendOperation (Some c) operation = applyOperation c operation"
  unfolding sendOperation_def applyOperation_def applyInsert_def applyDelete_def
  by simp

text \<open>
  Claim C1, as the code has it.  An Insert of text \<open>t\<close> at index \<open>p\<close> gives the old
  content with \<open>t\<close> spliced in at \<open>p\<close>; a Delete of \<open>n\<close> characters at index \<open>p\<close>
  gives the old content without the \<open>n\<close> characters that start at \<open>p\<close>; a full sync
  whose content \<open>c'\<close> is not empty gives exactly \<open>c'\<close>, whatever the old content was.
  A full sync whose content is empty leaves the old content as it is.  The local
  transport computes the same content.  The position is any integer: one below 0
  counts as 0 and one beyond the end as the end, since positions are not checked
  against the bounds of the content.
\<close>

theorem applyOperation_splices:
  "applyOperation c (operation\<lparr>op_type := Insert, position := Some p, op_text := Some t\<rparr>)
      = take (nat p) c @ t @ drop (nat p) c
   \<and> applyOperation c (operation\<lparr>op_type := Delete, position := Some p, op_length := Some (int n)\<rparr>)
      = take (nat p) c @ drop (nat (p + int n)) c
   \<and> (c' \<noteq> [] \<longrightarrow> applyOperation c (operation\<lparr>op_type := Sync, content := Some c'\<rparr>) = c')
   \<and> applyOperation c (operation\<lparr>op_type := Sync, content := Some []\<rparr>) = c
   \<and> sendOperation (Some c) operation = applyOperation c operation"
  by (simp only: applyOperation_Insert applyOperation_Delete applyOperation_Sync
        sendOperation_applyOperation) simp

theorem applyOperation_splices_witness:
  "''X'' \<noteq> [] \<and>
   applyOperation ''hello''
     \<lparr>op_type = Sync, userId = ''u1'', position = None, op_text = None, op_length = None,
      content = Some ''X'', timestamp = None, fromUserId = None\<rparr> = ''X'' \<and>
   applyOperation ''hello''
     \<lparr>op_type = Insert, userId = ''u1'', position = Some 2, op_text = Some ''AB'', op_length = None,
      content = None, timestamp = None, fromUserId = None\<rparr> = ''heABllo'' \<and>
   applyOperation ''hello''
     \<lparr>op_type = Delete, userId = ''u1'', position = Some 1, op_text = None, op_length = Some 3,
      content = None, timestamp = None, fromUserId = None\<rparr> = ''ho''"
  using applyOperation_splices [where c = "''hello''" and p = 2 and t = "''AB''" and c' = "''X''"
      and operation = "\<lparr>op_type = Sync, userId = ''u1'', position = None, op_text = None,
        op_length = None, content = None, timestamp = None, fromUserId = None\<rparr>"]
    applyOperation_splices [where c = "''hello''" and p = 1 and n = 3 and c' = "''X''"
      and operation = "\<lparr>op_type = Sync, userId = ''u1'', position = None, op_text = None,
        op_length = None, content = None, timestamp = None, fromUserId = None\<rparr>"]
  by simp

text \<open>
  Claim C1 as stated fails for a full sync that carries the empty string: the
  document \<open>abc\<close> stays \<open>abc\<close>.
\<close>

theorem fullsync_empty_counterexample:
  "applyOperation ''abc''
     \<lparr>op_type = Sync, userId = ''u1'', position = None, op_text = None, op_length = None,
      content = Some [], timestamp = Some 1, fromUserId = None\<rparr> \<noteq> []"
  by (simp add: applyOperation_def truthy_str_def)

text \<open>
  Claim C10.  A Delete of length 0 and a full sync with empty content return the
  content unchanged, in the collaboration service and in the local transport, so a
  full sync of the empty document does not clear a document.
\<close>

theorem empty_operations_are_noops:
  "applyOperation c (operation\<lparr>op_type := Delete, op_length := Some 0\<rparr>) = c
   \<and> applyOperation c (operation\<lparr>op_type := Sync, content := Some []\<rparr>) = c
   \<and> sendOperation (Some c) (operation\<lparr>op_type := Delete, op_length := Some 0\<rparr>) = c
   \<and> sendOperation (Some c) (operation\<lparr>op_type := Sync, content := Some []\<rparr>) = c"
  by (simp add: sendOperation_def applyOperation_def truthy_num_def truthy_str_def)

theorem empty_operations_are_noops_witness:
  "applyOperation ''abc''
     \<lparr>op_type = Delete, userId = ''u1'', position = Some 1, op_text = None, op_length = Some 0,
      content = None, timestamp = None, fromUserId = None\<rparr> = ''abc'' \<and>
   applyOperation ''abc''
     \<lparr>op_type = Sync, userId = ''u1'', position = Some 1, op_text = None, op_length = None,
      content = Some [], timestamp = None, fromUserId = None\<rparr> = ''abc''"
  using empty_operations_are_noops [where c = "''abc''" and operation =
      "\<lparr>op_type = Insert, userId = ''u1'', position = Some 1, op_text = None, op_length = None,
        content = None, timestamp = None, fromUserId = None\<rparr>"]
  by simp

text \<open>
  Claim C3, as the code has it.  Replaying any sequence of operations on the content
  \<open>c\<close> and applying to \<open>c\<close> one full sync that carries the replayed buffer give the
  same content exactly when the replayed buffer is not empty or \<open>c\<close> is empty.
\<close>

theorem replay_equals_fullsync:
  "(applyOperation c (operation\<lparr>op_type := Sync, content := Some (replay c ops)\<rparr>) = replay c ops)
     \<longleftrightarrow> (replay c ops \<noteq> [] \<or> c = [])"
  by (auto simp: applyOperation_Sync)

theorem replay_equals_fullsync_witness:
  "replay ''abc''
     [\<lparr>op_type = Insert, userId = ''u1'', position = Some 3, op_text = Some ''d'', op_length = None,
       content = None, timestamp = None, fromUserId = None\<rparr>,
      \<lparr>op_type = Delete, userId = ''u1'', position = Some 0, op_text = None, op_length = Some 2,
       content = None, timestamp = None, fromUserId = None\<rparr>] = ''cd'' \<and>
   applyOperation ''abc''
     \<lparr>op_type = Sync, userId = ''u1'', position = None, op_text = None, op_length = None,
      content = Some ''cd'', timestamp = None, fromUserId = None\<rparr> = ''cd''"
proof -
  let ?ops = "[\<lparr>op_type = Insert, userId = ''u1'', position = Some 3, op_text = Some ''d'',
       op_length = None, content = None, timestamp = None, fromUserId = None\<rparr>,
      \<lparr>op_type = Delete, userId = ''u1'', position = Some 0, op_text = None, op_length = Some 2,
       content = None, timestamp = None, fromUserId = None\<rparr>]"
  have r: "replay ''abc'' ?ops = ''cd''"
    by (simp add: replay_def applyOperation_def truthy_str_def truthy_num_def substring_def
          substringFrom_def clampIndex_def)
  show ?thesis
    using replay_equals_fullsync [where c = "''abc''" and ops = ?ops and operation =
        "\<lparr>op_type = Sync, userId = ''u1'', position = None, op_text = None, op_length = None,
          content = None, timestamp = None, fromUserId = None\<rparr>"] r
    by simp
qed

text \<open>
  Claim C3 as stated fails when the replayed buffer is empty: deleting the only
  character of \<open>a\<close> gives the empty buffer, and the full sync of that buffer
  leaves \<open>a\<close> in place.
\<close>

theorem replay_fullsync_counterexample:
  "applyOperation ''a''
     \<lparr>op_type = Sync, userId = ''u1'', position = None, op_text = None, op_length = None,
      content = Some (replay ''a''
        [\<lparr>op_type = Delete, userId = ''u1'', position = Some 0, op_text = None,
          op_length = Some 1, content = None, timestamp = Some 1, fromUserId = None\<rparr>]),
      timestamp = Some 2, fromUserId = None\<rparr>
   \<noteq> replay ''a''
        [\<lparr>op_type = Delete, userId = ''u1'', position = Some 0, op_text = None,
          op_length = Some 1, content = None, timestamp = Some 1, fromUserId = None\<rparr>]"
  by (simp add: replay_def applyOperation_def truthy_str_def truthy_num_def substring_def
        substringFrom_def clampIndex_def)

section \<open>Transformation against recent operations\<close>

lemma sameUser_iff:
  "sameUser e inc
     \<longleftrightarrow> fromUserId e = fromUserId inc \<and> fromUserId inc \<noteq> None \<and> fromUserId inc \<noteq> Some []"
  by (auto simp: sameUser_def truthy_str_def split: option.splits)

lemma timestampOr0_eq: "timestampOr0 = (\<lambda>e. case timestamp e of None \<Rightarrow> 0 | Some t \<Rightarrow> t)"
  by (simp add: fun_eq_iff timestampOr0_def)

lemma transformStep_shift:
  assumes "op_type inc = Insert \<or> op_type inc = Delete" and "\<not> sameUser e inc"
  shows "transformStep (inc\<lparr>position := Some p\<rparr>) e = inc\<lparr>position := Some (shift p e)\<rparr>"
  using assms
  by (cases "op_type e"; cases "position e")
    (auto simp: transformStep_def shift_def sameUser_def le_opt_def lt_opt_def textLength_def
      lengthOr0_def)

lemma foldl_transformStep_shift:
  assumes "op_type inc = Insert \<or> op_type inc = Delete" and "\<forall>e\<in>set xs. \<not> sameUser e inc"
  shows "foldl transformStep (inc\<lparr>position := Some p\<rparr>) xs
           = inc\<lparr>position := Some (foldl shift p xs)\<rparr>"
  using assms
  by (induction xs arbitrary: p) (simp_all add: transformStep_shift)

lemma transformOperation_foldl_shift:
  assumes "op_type inc = Insert \<or> op_type inc = Delete" and "position inc = Some p"
    and "\<forall>e\<in>set recent. \<not> sameUser e inc"
  shows "transformOperation inc recent
           = inc\<lparr>position := Some (foldl shift p (sort_key timestampOr0 recent))\<rparr>"
proof (cases "recent = []")
  case True
  then show ?thesis using assms(2) by (simp add: transformOperation_def)
next
  case False
  have inc: "inc = inc\<lparr>position := Some p\<rparr>"
    using assms(2) by simp
  have "foldl transformStep (inc\<lparr>position := Some p\<rparr>) (sort_key timestampOr0 recent)
          = inc\<lparr>position := Some (foldl shift p (sort_key timestampOr0 recent))\<rparr>"
    using assms(1,3) by (intro foldl_transformStep_shift) simp_all
  then show ?thesis
    using False inc by (simp add: transformOperation_def)
qed

lemma transformStep_fromUserId: "fromUserId (transformStep t e) = fromUserId t"
  by (simp add: transformStep_def)

lemma foldl_transformStep_filter:
  "fromUserId t = fromUserId inc \<Longrightarrow>
   foldl transformStep t xs = foldl transformStep t (filter (\<lambda>e. \<not> sameUser e inc) xs)"
proof (induction xs arbitrary: t)
  case Nil
  then show ?case by simp
next
  case (Cons e xs)
  have eq: "sameUser e t = sameUser e inc"
    using Cons.prems by (simp add: sameUser_def)
  show ?case
  proof (cases "sameUser e inc")
    case True
    then have "transformStep t e = t"
      using eq by (simp add: transformStep_def)
    then show ?thesis
      using True Cons by simp
  next
    case False
    have "fromUserId (transformStep t e) = fromUserId inc"
      using Cons.prems by (simp add: transformStep_fromUserId)
    then show ?thesis
      using False Cons.IH by simp
  qed
qed

lemma transformOperation_filter:
  "transformOperation inc recent
     = transformOperation inc (filter (\<lambda>e. \<not> sameUser e inc) recent)"
proof -
  have "foldl transformStep inc (sort_key timestampOr0 recent)
      = foldl transformStep inc
          (sort_key timestampOr0 (filter (\<lambda>e. \<not> sameUser e inc) recent))"
    using foldl_transformStep_filter [of inc inc "sort_key timestampOr0 recent"]
    by (simp add: filter_sort)
  then show ?thesis
    by (simp add: transformOperation_def)
qed

lemma transformOperation_position:
  assumes "op_type inc = Insert \<or> op_type inc = Delete" and "position inc = Some p"
  shows "transformOperation inc recent
           = inc\<lparr>position := Some (foldl shift p
                (sort_key (\<lambda>e. case timestamp e of None \<Rightarrow> 0 | Some t \<Rightarrow> t)
                  (filter (\<lambda>e. \<not> (fromUserId e = fromUserId inc \<and> fromUserId inc \<noteq> None \<and> fromUserId inc \<noteq> Some [])) recent)))\<rparr>"
proof -
  let ?kept = "filter (\<lambda>e. \<not> sameUser e inc) recent"
  have "transformOperation inc recent = transformOperation inc ?kept"
    by (rule transformOperation_filter)
  also have "\<dots> = inc\<lparr>position := Some (foldl shift p (sort_key timestampOr0 ?kept))\<rparr>"
    using assms by (intro transformOperation_foldl_shift) simp_all
  finally show ?thesis
    by (simp add: sameUser_iff timestampOr0_eq)
qed

text \<open>
  Claim C2, as the code has it.  For an incoming Insert or Delete at position \<open>p\<close> the
  transformed operation is the incoming one with a new position.  The recent
  operations that carry the same non-empty \<^verbatim>\<open>fromUserId\<close> as the incoming one are left
  out; the others are taken one after the other in ascending order of timestamp, a
  missing timestamp counting as 0, and each moves the position reached so far:
  forward by the length of its text when it is an Insert at or before that position,
  back by its length when it is a Delete before that position.  In particular an
  Insert at 5, transformed against a prior Insert of \<open>AB\<close> at 2 from another user,
  ends at position 7.
\<close>

theorem transformOperation_shifts:
  "((op_type inc = Insert \<or> op_type inc = Delete) \<and> position inc = Some p
     \<longrightarrow> transformOperation inc recent
           = inc\<lparr>position := Some (foldl shift p
                (sort_key (\<lambda>e. case timestamp e of None \<Rightarrow> 0 | Some t \<Rightarrow> t)
                  (filter (\<lambda>e. \<not> (fromUserId e = fromUserId inc \<and> fromUserId inc \<noteq> None \<and> fromUserId inc \<noteq> Some [])) recent)))\<rparr>)
   \<and> (op_type inc = Insert \<and> position inc = Some 5 \<and> op_type prior = Insert
        \<and> position prior = Some 2 \<and> op_text prior = Some ''AB''
        \<and> fromUserId prior \<noteq> fromUserId inc
     \<longrightarrow> position (transformOperation inc [prior]) = Some 7)"
proof (intro conjI impI)
  assume "(op_type inc = Insert \<or> op_type inc = Delete) \<and> position inc = Some p"
  then show "transformOperation inc recent
           = inc\<lparr>position := Some (foldl shift p
                (sort_key (\<lambda>e. case timestamp e of None \<Rightarrow> 0 | Some t \<Rightarrow> t)
                  (filter (\<lambda>e. \<not> (fromUserId e = fromUserId inc \<and> fromUserId inc \<noteq> None \<and> fromUserId inc \<noteq> Some [])) recent)))\<rparr>"
    by (intro transformOperation_position) simp_all
next
  assume a: "op_type inc = Insert \<and> position inc = Some 5 \<and> op_type prior = Insert
        \<and> position prior = Some 2 \<and> op_text prior = Some ''AB''
        \<and> fromUserId prior \<noteq> fromUserId inc"
  then have "transformOperation inc [prior]
      = inc\<lparr>position := Some (foldl shift 5
                (sort_key (\<lambda>e. case timestamp e of None \<Rightarrow> 0 | Some t \<Rightarrow> t)
                  (filter (\<lambda>e. \<not> (fromUserId e = fromUserId inc \<and> fromUserId inc \<noteq> None \<and> fromUserId inc \<noteq> Some [])) [prior])))\<rparr>"
    by (intro transformOperation_position) simp_all
  then show "position (transformOperation inc [prior]) = Some 7"
    using a by (simp add: shift_def)
qed

theorem transformOperation_shifts_witness:
  "transformOperation
     \<lparr>op_type = Insert, userId = ''ann'', position = Some 5, op_text = Some ''X'', op_length = None,
       content = None, timestamp = Some 9, fromUserId = Some ''ann''\<rparr>
     [\<lparr>op_type = Insert, userId = ''bob'', position = Some 8, op_text = Some ''ZZ'', op_length = None,
       content = None, timestamp = Some 3, fromUserId = Some ''bob''\<rparr>,
      \<lparr>op_type = Delete, userId = ''cy'', position = Some 6, op_text = None, op_length = Some 1,
       content = None, timestamp = Some 4, fromUserId = Some ''cy''\<rparr>,
      \<lparr>op_type = Insert, userId = ''bob'', position = Some 5, op_text = Some ''AB'', op_length = None,
       content = None, timestamp = Some 1, fromUserId = Some ''bob''\<rparr>,
      \<lparr>op_type = Insert, userId = ''ann'', position = Some 0, op_text = Some ''Q'', op_length = None,
       content = None, timestamp = Some 5, fromUserId = Some ''ann''\<rparr>,
      \<lparr>op_type = Delete, userId = ''cy'', position = Some 7, op_text = None, op_length = Some 3,
       content = None, timestamp = Some 2, fromUserId = Some ''cy''\<rparr>]
   = \<lparr>op_type = Insert, userId = ''ann'', position = Some 6, op_text = Some ''X'', op_length = None,
       content = None, timestamp = Some 9, fromUserId = Some ''ann''\<rparr>
   \<and> position (transformOperation
       \<lparr>op_type = Insert, userId = ''ann'', position = Some 5, op_text = Some ''X'', op_length = None,
       content = None, timestamp = Some 9, fromUserId = Some ''ann''\<rparr>
       [\<lparr>op_type = Insert, userId = ''bob'', position = Some 2, op_text = Some ''AB'', op_length = None,
       content = None, timestamp = Some 7, fromUserId = Some ''bob''\<rparr>]) = Some 7"
  using transformOperation_shifts [where p = 5
      and inc = "\<lparr>op_type = Insert, userId = ''ann'', position = Some 5, op_text = Some ''X'', op_length = None,
       content = None, timestamp = Some 9, fromUserId = Some ''ann''\<rparr>"
      and prior = "\<lparr>op_type = Insert, userId = ''bob'', position = Some 2, op_text = Some ''AB'', op_length = None,
       content = None, timestamp = Some 7, fromUserId = Some ''bob''\<rparr>"
      and recent = "[\<lparr>op_type = Insert, userId = ''bob'', position = Some 8, op_text = Some ''ZZ'', op_length = None,
       content = None, timestamp = Some 3, fromUserId = Some ''bob''\<rparr>,
      \<lparr>op_type = Delete, userId = ''cy'', position = Some 6, op_text = None, op_length = Some 1,
       content = None, timestamp = Some 4, fromUserId = Some ''cy''\<rparr>,
      \<lparr>op_type = Insert, userId = ''bob'', position = Some 5, op_text = Some ''AB'', op_length = None,
       content = None, timestamp = Some 1, fromUserId = Some ''bob''\<rparr>,
      \<lparr>op_type = Insert, userId = ''ann'', position = Some 0, op_text = Some ''Q'', op_length = None,
       content = None, timestamp = Some 5, fromUserId = Some ''ann''\<rparr>,
      \<lparr>op_type = Delete, userId = ''cy'', position = Some 7, op_text = None, op_length = Some 3,
       content = None, timestamp = Some 2, fromUserId = Some ''cy''\<rparr>]"]
  by (simp add: shift_def)

text \<open>
  Claim C2 as stated fails when an earlier shift carries the position past a later
  operation.  An Insert at 5 is transformed against an Insert of \<open>AB\<close> at 2 and an
  Insert of \<open>C\<close> at 6, from two other users: the first moves it to 7, so that the
  second, which lies after the incoming position, lies before the position reached
  and moves it to 8, where the claim gives 7.
\<close>

theorem running_position_counterexample:
  "position (transformOperation
     \<lparr>op_type = Insert, userId = ''ann'', position = Some 5, op_text = Some ''X'', op_length = None,
       content = None, timestamp = Some 9, fromUserId = Some ''ann''\<rparr>
     [\<lparr>op_type = Insert, userId = ''bob'', position = Some 2, op_text = Some ''AB'', op_length = None,
       content = None, timestamp = Some 1, fromUserId = Some ''bob''\<rparr>,
      \<lparr>op_type = Insert, userId = ''cy'', position = Some 6, op_text = Some ''C'', op_length = None,
       content = None, timestamp = Some 2, fromUserId = Some ''cy''\<rparr>]) = Some 8
   \<and> claimedPosition 5
     [\<lparr>op_type = Insert, userId = ''bob'', position = Some 2, op_text = Some ''AB'', op_length = None,
       content = None, timestamp = Some 1, fromUserId = Some ''bob''\<rparr>,
      \<lparr>op_type = Insert, userId = ''cy'', position = Some 6, op_text = Some ''C'', op_length = None,
       content = None, timestamp = Some 2, fromUserId = Some ''cy''\<rparr>] = 7"
  by (simp add: transformOperation_def transformStep_def sameUser_def truthy_str_def
        timestampOr0_def le_opt_def lt_opt_def textLength_def lengthOr0_def claimedPosition_def
        shift_def)

text \<open>
  Claim C8, as the code has it.  A recent operation is skipped when it and the
  incoming operation carry the same non-empty \<^verbatim>\<open>fromUserId\<close>: transforming against a
  list gives the same result as transforming against the list without these
  operations, and when every recent operation is one of them the incoming operation
  is returned as it is.  A recent operation that is not one of them is not skipped,
  whatever its \<^verbatim>\<open>userId\<close>: it shifts the position of an incoming Insert or Delete.
\<close>

theorem transformOperation_skips_same_user:
  "transformOperation inc recent
     = transformOperation inc (filter (\<lambda>e. \<not> (fromUserId e = fromUserId inc \<and> fromUserId inc \<noteq> None \<and> fromUserId inc \<noteq> Some [])) recent)
   \<and> ((\<forall>e\<in>set recent. (fromUserId e = fromUserId inc \<and> fromUserId inc \<noteq> None \<and> fromUserId inc \<noteq> Some []))
        \<longrightarrow> transformOperation inc recent = inc)
   \<and> (\<not> (fromUserId prior = fromUserId inc \<and> fromUserId inc \<noteq> None \<and> fromUserId inc \<noteq> Some [])
        \<and> (op_type inc = Insert \<or> op_type inc = Delete) \<and> position inc = Some p
        \<longrightarrow> position (transformOperation inc [prior]) = Some (shift p prior))"
proof (intro conjI impI)
  show f: "transformOperation inc recent
     = transformOperation inc (filter (\<lambda>e. \<not> (fromUserId e = fromUserId inc \<and> fromUserId inc \<noteq> None \<and> fromUserId inc \<noteq> Some [])) recent)"
    using transformOperation_filter [of inc recent] by (simp add: sameUser_iff)
  assume "\<forall>e\<in>set recent. (fromUserId e = fromUserId inc \<and> fromUserId inc \<noteq> None \<and> fromUserId inc \<noteq> Some [])"
  then have "filter (\<lambda>e. \<not> (fromUserId e = fromUserId inc \<and> fromUserId inc \<noteq> None \<and> fromUserId inc \<noteq> Some [])) recent = []"
    by (simp add: filter_empty_conv)
  then have "transformOperation inc recent = transformOperation inc []"
    using f by simp
  then show "transformOperation inc recent = inc"
    by (simp add: transformOperation_def)
next
  assume a: "\<not> (fromUserId prior = fromUserId inc \<and> fromUserId inc \<noteq> None \<and> fromUserId inc \<noteq> Some [])
        \<and> (op_type inc = Insert \<or> op_type inc = Delete) \<and> position inc = Some p"
  then have "\<forall>e\<in>set [prior]. \<not> sameUser e inc"
    by (simp add: sameUser_iff)
  then have "transformOperation inc [prior]
      = inc\<lparr>position := Some (foldl shift p (sort_key timestampOr0 [prior]))\<rparr>"
    using a by (intro transformOperation_foldl_shift) simp_all
  then show "position (transformOperation inc [prior]) = Some (shift p prior)"
    by simp
qed

theorem transformOperation_skips_same_user_witness:
  "transformOperation
     \<lparr>op_type = Insert, userId = ''ann'', position = Some 5, op_text = Some ''X'', op_length = None,
       content = None, timestamp = Some 9, fromUserId = Some ''ann''\<rparr>
     [\<lparr>op_type = Insert, userId = ''ann'', position = Some 2, op_text = Some ''AB'', op_length = None,
       content = None, timestamp = Some 7, fromUserId = Some ''ann''\<rparr>]
   = \<lparr>op_type = Insert, userId = ''ann'', position = Some 5, op_text = Some ''X'', op_length = None,
       content = None, timestamp = Some 9, fromUserId = Some ''ann''\<rparr>
   \<and> position (transformOperation
       \<lparr>op_type = Insert, userId = ''ann'', position = Some 5, op_text = Some ''X'', op_length = None,
       content = None, timestamp = Some 9, fromUserId = Some ''ann''\<rparr>
       [\<lparr>op_type = Insert, userId = ''bob'', position = Some 2, op_text = Some ''AB'', op_length = None,
       content = None, timestamp = Some 7, fromUserId = Some ''bob''\<rparr>]) = Some 7"
  using transformOperation_skips_same_user [where p = 5
      and inc = "\<lparr>op_type = Insert, userId = ''ann'', position = Some 5, op_text = Some ''X'', op_length = None,
       content = None, timestamp = Some 9, fromUserId = Some ''ann''\<rparr>"
      and recent = "[\<lparr>op_type = Insert, userId = ''ann'', position = Some 2, op_text = Some ''AB'', op_length = None,
       content = None, timestamp = Some 7, fromUserId = Some ''ann''\<rparr>]"
      and prior = "\<lparr>op_type = Insert, userId = ''bob'', position = Some 2, op_text = Some ''AB'', op_length = None,
       content = None, timestamp = Some 7, fromUserId = Some ''bob''\<rparr>"]
  by (simp add: shift_def transformOperation_def)

text \<open>
  Claim C8 as stated fails for operations that name their user in \<^verbatim>\<open>userId\<close> only, as
  the operations that the editor builds do: an Insert at 5 of the user \<open>u1\<close> is
  transformed against an earlier Insert of \<open>AB\<close> at 2 of the same user \<open>u1\<close>, and its
  position is moved to 7.
\<close>

theorem same_userId_shifted_counterexample:
  "position (transformOperation
     \<lparr>op_type = Insert, userId = ''u1'', position = Some 5, op_text = Some ''X'', op_length = None,
       content = None, timestamp = Some 2000, fromUserId = None\<rparr>
     [\<lparr>op_type = Insert, userId = ''u1'', position = Some 2, op_text = Some ''AB'', op_length = None,
       content = None, timestamp = Some 1500, fromUserId = None\<rparr>]) = Some 7"
  by (simp add: transformOperation_def transformStep_def sameUser_def truthy_str_def
        le_opt_def textLength_def)

section \<open>Validation\<close>

lemma validateOperation_valid_iff:
  "isValid (validateOperation inc existing)
     \<longleftrightarrow> existing = []
         \<or> (\<exists>t. timestamp inc = Some t \<and> t \<noteq> 0
               \<and> (\<forall>e\<in>set existing. (fromUserId e = fromUserId inc \<and> fromUserId inc \<noteq> None \<and> fromUserId inc \<noteq> Some [])
                      \<or> 1000 \<le> \<bar>(case timestamp e of None \<Rightarrow> 0 | Some t' \<Rightarrow> t') - t\<bar>))"
proof (cases "existing = []")
  case True
  then show ?thesis by (simp add: validateOperation_def)
next
  case ne: False
  show ?thesis
  proof (cases "timestamp inc")
    case None
    then show ?thesis using ne by (simp add: validateOperation_def truthy_num_def)
  next
    case (Some t)
    have c: "conflictsWith inc e
        = (\<not> (fromUserId e = fromUserId inc \<and> fromUserId inc \<noteq> None \<and> fromUserId inc \<noteq> Some [])
            \<and> \<bar>(case timestamp e of None \<Rightarrow> 0 | Some t' \<Rightarrow> t') - t\<bar> < 1000)" for e
      using Some by (simp add: conflictsWith_def timestampOr0_def sameUser_iff)
    have f: "(filter (conflictsWith inc) existing = []) = (\<forall>e\<in>set existing. \<not> conflictsWith inc e)"
      by (simp add: filter_empty_conv)
    show ?thesis
    proof (cases "t = 0")
      case True
      then show ?thesis using ne Some by (simp add: validateOperation_def truthy_num_def)
    next
      case False
      have "isValid (validateOperation inc existing) = (filter (conflictsWith inc) existing = [])"
        using ne Some False by (simp add: validateOperation_def truthy_num_def Let_def)
      then show ?thesis
        using ne Some False unfolding f c by (auto simp: not_less)
    qed
  qed
qed

lemma validateOperation_missing:
  "existing \<noteq> [] \<Longrightarrow> timestamp inc = None \<or> timestamp inc = Some 0 \<Longrightarrow>
   validateOperation inc existing = \<lparr>isValid = False, reason = Some MissingTimestamp\<rparr>"
  by (auto simp: validateOperation_def truthy_num_def)

lemma validateOperation_reason:
  "isValid (validateOperation inc existing) \<longleftrightarrow> reason (validateOperation inc existing) = None"
  by (simp add: validateOperation_def Let_def)

lemma executeOperation_applies:
  "sessions sid = Some s \<Longrightarrow>
   executeOperation sessions sid inc now
     = (Some (inc\<lparr>timestamp := Some now\<rparr>),
        sessions(sid \<mapsto> s\<lparr>cs_content := applyOperation (cs_content s) (inc\<lparr>timestamp := Some now\<rparr>),
                          operations := operations s @ [inc\<lparr>timestamp := Some now\<rparr>]\<rparr>))"
  by (simp add: executeOperation_def Let_def)

text \<open>
  Claim C9, as the code has it.  Against an empty list every operation is valid.
  Against a list that is not empty an incoming operation whose timestamp is missing
  or 0 is invalid, for the reason that the timestamp is missing; one with a timestamp
  \<open>t\<close> other than 0 is invalid exactly when some existing operation has a timestamp
  less than 1000 ms away from \<open>t\<close>, a missing one counting as 0, unless that operation
  and the incoming one carry the same non-empty \<^verbatim>\<open>fromUserId\<close>.  The answer has
  a reason exactly when it is invalid.  The answer blocks nothing: executing an
  operation on a session applies it to the content and records it, with no part
  played by the validation.
\<close>

theorem validateOperation_flags_conflicts:
  "(isValid (validateOperation inc existing)
     \<longleftrightarrow> existing = []
         \<or> (\<exists>t. timestamp inc = Some t \<and> t \<noteq> 0
               \<and> (\<forall>e\<in>set existing. (fromUserId e = fromUserId inc \<and> fromUserId inc \<noteq> None \<and> fromUserId inc \<noteq> Some [])
                      \<or> 1000 \<le> \<bar>(case timestamp e of None \<Rightarrow> 0 | Some t' \<Rightarrow> t') - t\<bar>)))
   \<and> (existing \<noteq> [] \<and> (timestamp inc = None \<or> timestamp inc = Some 0)
        \<longrightarrow> validateOperation inc existing = \<lparr>isValid = False, reason = Some MissingTimestamp\<rparr>)
   \<and> (isValid (validateOperation inc existing) \<longleftrightarrow> reason (validateOperation inc existing) = None)
   \<and> (sessions sid = Some s \<longrightarrow>
        executeOperation sessions sid inc now
          = (Some (inc\<lparr>timestamp := Some now\<rparr>),
             sessions(sid \<mapsto> s\<lparr>cs_content := applyOperation (cs_content s) (inc\<lparr>timestamp := Some now\<rparr>),
                               operations := operations s @ [inc\<lparr>timestamp := Some now\<rparr>]\<rparr>)))"
  using validateOperation_valid_iff [of inc existing]
    validateOperation_missing [of existing inc]
    validateOperation_reason [of inc existing]
    executeOperation_applies [of sessions sid s inc now]
  by blast

theorem validateOperation_flags_conflicts_witness:
  "\<not> isValid (validateOperation
       \<lparr>op_type = Insert, userId = ''ann'', position = Some 5, op_text = Some ''X'', op_length = None,
       content = None, timestamp = Some 2000, fromUserId = Some ''ann''\<rparr>
       [\<lparr>op_type = Insert, userId = ''bob'', position = Some 2, op_text = Some ''AB'', op_length = None,
       content = None, timestamp = Some 1500, fromUserId = Some ''bob''\<rparr>])
   \<and> isValid (validateOperation
       \<lparr>op_type = Insert, userId = ''ann'', position = Some 5, op_text = Some ''X'', op_length = None,
       content = None, timestamp = Some 2000, fromUserId = Some ''ann''\<rparr>
       [\<lparr>op_type = Insert, userId = ''bob'', position = Some 2, op_text = Some ''AB'', op_length = None,
       content = None, timestamp = Some 1000, fromUserId = Some ''bob''\<rparr>])
   \<and> isValid (validateOperation
       \<lparr>op_type = Insert, userId = ''ann'', position = Some 5, op_text = Some ''X'', op_length = None,
       content = None, timestamp = Some 2000, fromUserId = Some ''ann''\<rparr>
       [\<lparr>op_type = Insert, userId = ''ann'', position = Some 2, op_text = Some ''AB'', op_length = None,
       content = None, timestamp = Some 1500, fromUserId = Some ''ann''\<rparr>])
   \<and> validateOperation
       \<lparr>op_type = Insert, userId = ''ann'', position = Some 5, op_text = Some ''X'', op_length = None,
       content = None, timestamp = Some 0, fromUserId = Some ''ann''\<rparr>
       [\<lparr>op_type = Insert, userId = ''bob'', position = Some 2, op_text = Some ''AB'', op_length = None,
       content = None, timestamp = Some 50000, fromUserId = Some ''bob''\<rparr>]
     = \<lparr>isValid = False, reason = Some MissingTimestamp\<rparr>
   \<and> map_option cs_content
       (snd (executeOperation
          [''s1'' \<mapsto> \<lparr>cs_id = ''s1'', documentId = ''d'', cs_users = [], cs_content = ''hello world'',
         operations = [\<lparr>op_type = Insert, userId = ''bob'', position = Some 2, op_text = Some ''AB'', op_length = None,
       content = None, timestamp = Some 1500, fromUserId = Some ''bob''\<rparr>]\<rparr>]
          ''s1''
          \<lparr>op_type = Insert, userId = ''ann'', position = Some 5, op_text = Some ''X'', op_length = None,
       content = None, timestamp = Some 2000, fromUserId = Some ''ann''\<rparr> 2000) ''s1'')
     = Some ''helloX world''"
  using validateOperation_flags_conflicts [where now = 2000 and sid = "''s1''"
      and inc = "\<lparr>op_type = Insert, userId = ''ann'', position = Some 5, op_text = Some ''X'', op_length = None,
       content = None, timestamp = Some 2000, fromUserId = Some ''ann''\<rparr>"
      and existing = "[\<lparr>op_type = Insert, userId = ''bob'', position = Some 2, op_text = Some ''AB'', op_length = None,
       content = None, timestamp = Some 1500, fromUserId = Some ''bob''\<rparr>]"
      and s = "\<lparr>cs_id = ''s1'', documentId = ''d'', cs_users = [], cs_content = ''hello world'',
         operations = [\<lparr>op_type = Insert, userId = ''bob'', position = Some 2, op_text = Some ''AB'', op_length = None,
       content = None, timestamp = Some 1500, fromUserId = Some ''bob''\<rparr>]\<rparr>"
      and sessions = "[''s1'' \<mapsto> \<lparr>cs_id = ''s1'', documentId = ''d'', cs_users = [], cs_content = ''hello world'',
         operations = [\<lparr>op_type = Insert, userId = ''bob'', position = Some 2, op_text = Some ''AB'', op_length = None,
       content = None, timestamp = Some 1500, fromUserId = Some ''bob''\<rparr>]\<rparr>]"]
    validateOperation_flags_conflicts [where now = 2000 and sid = "''s1''"
      and inc = "\<lparr>op_type = Insert, userId = ''ann'', position = Some 5, op_text = Some ''X'', op_length = None,
       content = None, timestamp = Some 2000, fromUserId = Some ''ann''\<rparr>"
      and existing = "[\<lparr>op_type = Insert, userId = ''bob'', position = Some 2, op_text = Some ''AB'', op_length = None,
       content = None, timestamp = Some 1000, fromUserId = Some ''bob''\<rparr>]"
      and s = "\<lparr>cs_id = ''s1'', documentId = ''d'', cs_users = [], cs_content = ''hello world'',
         operations = [\<lparr>op_type = Insert, userId = ''bob'', position = Some 2, op_text = Some ''AB'', op_length = None,
       content = None, timestamp = Some 1500, fromUserId = Some ''bob''\<rparr>]\<rparr>"
      and sessions = "[''s1'' \<mapsto> \<lparr>cs_id = ''s1'', documentId = ''d'', cs_users = [], cs_content = ''hello world'',
         operations = [\<lparr>op_type = Insert, userId = ''bob'', position = Some 2, op_text = Some ''AB'', op_length = None,
       content = None, timestamp = Some 1500, fromUserId = Some ''bob''\<rparr>]\<rparr>]"]
    validateOperation_flags_conflicts [where now = 2000 and sid = "''s1''"
      and inc = "\<lparr>op_type = Insert, userId = ''ann'', position = Some 5, op_text = Some ''X'', op_length = None,
       content = None, timestamp = Some 2000, fromUserId = Some ''ann''\<rparr>"
      and existing = "[\<lparr>op_type = Insert, userId = ''ann'', position = Some 2, op_text = Some ''AB'', op_length = None,
       content = None, timestamp = Some 1500, fromUserId = Some ''ann''\<rparr>]"
      and s = "\<lparr>cs_id = ''s1'', documentId = ''d'', cs_users = [], cs_content = ''hello world'',
         operations = [\<lparr>op_type = Insert, userId = ''bob'', position = Some 2, op_text = Some ''AB'', op_length = None,
       content = None, timestamp = Some 1500, fromUserId = Some ''bob''\<rparr>]\<rparr>"
      and sessions = "[''s1'' \<mapsto> \<lparr>cs_id = ''s1'', documentId = ''d'', cs_users = [], cs_content = ''hello world'',
         operations = [\<lparr>op_type = Insert, userId = ''bob'', position = Some 2, op_text = Some ''AB'', op_length = None,
       content = None, timestamp = Some 1500, fromUserId = Some ''bob''\<rparr>]\<rparr>]"]
    validateOperation_flags_conflicts [where now = 2000 and sid = "''s1''"
      and inc = "\<lparr>op_type = Insert, userId = ''ann'', position = Some 5, op_text = Some ''X'', op_length = None,
       content = None, timestamp = Some 0, fromUserId = Some ''ann''\<rparr>"
      and existing = "[\<lparr>op_type = Insert, userId = ''bob'', position = Some 2, op_text = Some ''AB'', op_length = None,
       content = None, timestamp = Some 50000, fromUserId = Some ''bob''\<rparr>]"
      and s = "\<lparr>cs_id = ''s1'', documentId = ''d'', cs_users = [], cs_content = ''hello world'',
         operations = [\<lparr>op_type = Insert, userId = ''bob'', position = Some 2, op_text = Some ''AB'', op_length = None,
       content = None, timestamp = Some 1500, fromUserId = Some ''bob''\<rparr>]\<rparr>"
      and sessions = "[''s1'' \<mapsto> \<lparr>cs_id = ''s1'', documentId = ''d'', cs_users = [], cs_content = ''hello world'',
         operations = [\<lparr>op_type = Insert, userId = ''bob'', position = Some 2, op_text = Some ''AB'', op_length = None,
       content = None, timestamp = Some 1500, fromUserId = Some ''bob''\<rparr>]\<rparr>]"]
  by (simp add: applyOperation_def truthy_str_def substring_def substringFrom_def clampIndex_def)

text \<open>
  Claim C9 as stated fails in two ways.  An operation of the user \<open>u1\<close> with the
  timestamp 2000 is invalid against a list that holds nothing but an earlier
  operation of the same user \<open>u1\<close>, 500 ms away, since neither operation carries a
  \<^verbatim>\<open>fromUserId\<close>; and an operation that carries the timestamp 0 is invalid against a
  list whose only operation is 50 seconds away.
\<close>

theorem same_userId_flagged_counterexample:
  "isValid (validateOperation
       \<lparr>op_type = Insert, userId = ''u1'', position = Some 5, op_text = Some ''X'', op_length = None,
       content = None, timestamp = Some 2000, fromUserId = None\<rparr>
       [\<lparr>op_type = Insert, userId = ''u1'', position = Some 2, op_text = Some ''AB'', op_length = None,
       content = None, timestamp = Some 1500, fromUserId = None\<rparr>]) = False
   \<and> isValid (validateOperation
       \<lparr>op_type = Insert, userId = ''ann'', position = Some 5, op_text = Some ''X'', op_length = None,
       content = None, timestamp = Some 0, fromUserId = Some ''ann''\<rparr>
       [\<lparr>op_type = Insert, userId = ''bob'', position = Some 2, op_text = Some ''AB'', op_length = None,
       content = None, timestamp = Some 50000, fromUserId = Some ''bob''\<rparr>]) = False"
  by (simp add: validateOperation_def conflictsWith_def sameUser_def truthy_str_def truthy_num_def
        timestampOr0_def)

section \<open>Capacity of a session\<close>

lemma findIndex_Some:
  "findIndex P xs = Some i \<Longrightarrow> i < length xs \<and> P (xs ! i)"
  by (induction xs arbitrary: i) (auto split: if_splits option.splits)



lemma join_full:
  "participantCount sessions sid \<ge> 8 \<Longrightarrow>
   fst (join toLowerCase sessions sid uid userName userColor socket now) = Inl SessionFull"
  by (auto simp: join_def participantCount_def MAX_USERS_PER_SESSION_def Let_def split: option.splits)

lemma join_count:
  "participantCount sessions sid' \<le> 8 \<Longrightarrow>
   participantCount (snd (join toLowerCase sessions sid uid userName userColor socket now)) sid' \<le> 8"
  by (auto simp: join_def participantCount_def MAX_USERS_PER_SESSION_def Let_def split: option.splits)

lemma disconnect_count:
  "participantCount (disconnect sessions sid uid) sid' \<le> participantCount sessions sid'"
  by (auto simp: disconnect_def participantCount_def split: option.splits dest: findIndex_Some)

lemma step_count:
  "participantCount sessions sid' \<le> 8 \<Longrightarrow> participantCount (step toLowerCase sessions ev) sid' \<le> 8"
proof (cases ev)
  case (JoinEvent sid uid userName userColor socket now)
  then show "participantCount sessions sid' \<le> 8 \<Longrightarrow> ?thesis"
    by (simp add: join_count)
next
  case (LeaveEvent sid uid)
  then show "participantCount sessions sid' \<le> 8 \<Longrightarrow> ?thesis"
    using disconnect_count [of sessions sid uid sid'] by simp
qed

lemma run_count:
  "participantCount sessions sid' \<le> 8 \<Longrightarrow> participantCount (run toLowerCase sessions events) sid' \<le> 8"
  unfolding run_def
  by (induction events arbitrary: sessions) (simp_all add: step_count)

lemma connect_local_count:
  "connect_local toLowerCase stored uid userName userColor now = Inr us' \<Longrightarrow> length us' \<le> 8"
proof -
  assume a: "connect_local toLowerCase stored uid userName userColor now = Inr us'"
  let ?us = "case stored of None \<Rightarrow> [] | Some v \<Rightarrow> v"
  have "length ?us < 8" using a by (auto simp: connect_local_def Let_def split: if_splits)
  moreover have "us' = filter (\<lambda>u. user_id u \<noteq> uid) ?us @ [\<lparr>user_id = uid, user_name = userName, color = Some userColor, status = ONLINE,
                  lastActive = Some now, socketId = None, cursorPosition = None,
                  selection = None\<rparr>]"
    using a by (auto simp: connect_local_def Let_def split: if_splits)
  moreover have "length (filter (\<lambda>u. user_id u \<noteq> uid) ?us) \<le> length ?us"
    by (rule length_filter_le)
  ultimately show ?thesis by (simp del: length_filter_le)
qed

lemma connect_local_full:
  "length us \<ge> 8 \<Longrightarrow> connect_local toLowerCase (Some us) uid userName userColor now = Inl SessionFull"
  by (simp add: connect_local_def)

text \<open>
  Claim C4.  Whatever joins and leaves the server handles, a session that holds at
  most 8 participants still holds at most 8 afterwards, and so does every session
  of a server that starts with no session at all; a join to a session that holds 8
  participants is refused as full.  The local transport refuses a connect when
  the stored list holds 8 participants, and the list it writes back holds at most 8.
\<close>

theorem capacity_never_exceeded:
  "(participantCount sessions sid \<le> 8 \<longrightarrow> participantCount (run toLowerCase sessions events) sid \<le> 8)
   \<and> participantCount (run toLowerCase Map.empty events) sid \<le> 8
   \<and> (participantCount sessions sid \<ge> 8
        \<longrightarrow> fst (join toLowerCase sessions sid uid userName userColor socket now) = Inl SessionFull)
   \<and> (\<forall>us'. connect_local toLowerCase stored uid userName userColor now = Inr us' \<longrightarrow> length us' \<le> 8)
   \<and> (length us \<ge> 8 \<longrightarrow> connect_local toLowerCase (Some us) uid userName userColor now = Inl SessionFull)"
proof -
  have "participantCount Map.empty sid \<le> 8" by (simp add: participantCount_def)
  then have "participantCount (run toLowerCase Map.empty events) sid \<le> 8" by (rule run_count)
  then show ?thesis
    using run_count [where toLowerCase = toLowerCase and sessions = sessions and sid' = sid
          and events = events]
      join_full [where toLowerCase = toLowerCase and sessions = sessions and sid = sid and uid = uid
          and userName = userName and userColor = userColor and socket = socket and now = now]
      connect_local_count [where toLowerCase = toLowerCase and stored = stored and uid = uid
          and userName = userName and userColor = userColor and now = now]
      connect_local_full [where toLowerCase = toLowerCase and us = us and uid = uid
          and userName = userName and userColor = userColor and now = now]
    by blast
qed

theorem capacity_never_exceeded_witness:
  "participantCount fullSession ''s1'' \<le> 8 \<and> participantCount fullSession ''s1'' \<ge> 8
   \<and> length fullHouse \<ge> 8
   \<and> participantCount
        (run lowerASCII fullSession
          [JoinEvent ''s1'' ''u9'' ''ian'' ''#2196F3'' ''k9'' 2000, LeaveEvent ''s1'' ''u2'',
           JoinEvent ''s1'' ''u9'' ''ian'' ''#2196F3'' ''k9'' 3000,
           JoinEvent ''s1'' ''u10'' ''jo'' ''#009688'' ''k10'' 4000]) ''s1'' \<le> 8
   \<and> fst (join lowerASCII fullSession ''s1'' ''u9'' ''ian'' ''#2196F3'' ''k9'' 2000) = Inl SessionFull
   \<and> connect_local lowerASCII (Some fullHouse) ''u9'' ''ian'' ''#2196F3'' 2000 = Inl SessionFull"
  using capacity_never_exceeded [where toLowerCase = lowerASCII and sessions = fullSession and sid = "''s1''" and us = fullHouse
      and uid = "''u9''" and userName = "''ian''" and userColor = "''#2196F3''" and socket = "''k9''"
      and now = 2000
      and events = "[JoinEvent ''s1'' ''u9'' ''ian'' ''#2196F3'' ''k9'' 2000, LeaveEvent ''s1'' ''u2'',
           JoinEvent ''s1'' ''u9'' ''ian'' ''#2196F3'' ''k9'' 3000,
           JoinEvent ''s1'' ''u10'' ''jo'' ''#009688'' ''k10'' 4000]"]
  by (simp add: participantCount_def fullSession_def fullHouse_def)

section \<open>Retrying the connection to the broker\<close>


































section \<open>Names and rejoining\<close>








section \<open>Presence timeouts of the local transport\<close>

lemma validateUserStatus_idem [simp]:
  "validateUserStatus (validateUserStatus s) = validateUserStatus s"
  by (simp add: validateUserStatus_def)

lemma broadcastMessage_Sync:
  "broadcastMessage st (SyncMsg us)
     = st\<lparr>usersData := Some (map (\<lambda>u. u\<lparr>status := validateUserStatus (status u)\<rparr>) us),
          sent := sent st @ [SyncMsg us]\<rparr>"
  by (simp add: broadcastMessage_def receiveMessage_def receiveSync_def)

lemma sent_broadcastMessage:
  "\<exists>rest. sent (broadcastMessage st msg) = sent st @ msg # rest"
  by (cases msg)
    (auto simp: broadcastMessage_def receiveMessage_def receiveSync_def
      removeUserFromActiveList_def Let_def split: option.splits)

lemma activityCheck_changes:
  assumes "usersData st = Some us" and "list_ex (awayDue now) us"
  shows "activityCheck st now
     = st\<lparr>usersData := Some (map (\<lambda>u. u\<lparr>status := (if awayDue now u then AWAY
                                   else validateUserStatus (status u)), socketId := None\<rparr>) us),
          sent := sent st @ [SyncMsg (map (\<lambda>u. u\<lparr>status := (if awayDue now u then AWAY
                                   else validateUserStatus (status u)), socketId := None\<rparr>) us)]\<rparr>"
  using assms
  by (simp add: activityCheck_def Let_def broadcastMessage_Sync comp_def validateUserStatus_def
        cong: if_cong)

lemma activityCheck_away:
  assumes "usersData st = Some us" and "i < length us" and "status (us ! i) = ONLINE"
    and "lastActive (us ! i) = Some t" and "t \<noteq> 0" and "now - t > AWAY_TIMEOUT"
  shows "\<exists>us'. usersData (activityCheck st now) = Some us' \<and> length us' = length us
           \<and> user_id (us' ! i) = user_id (us ! i) \<and> lastActive (us' ! i) = Some t
           \<and> status (us' ! i) = AWAY \<and> SyncMsg us' \<in> set (sent (activityCheck st now))"
proof -
  have d: "awayDue now (us ! i)"
    using assms(3-6) by (simp add: awayDue_def validateUserStatus_def truthy_num_def)
  then have "list_ex (awayDue now) us"
    using assms(2) by (auto simp: list_ex_iff)
  then show ?thesis
    using assms(1,2,4) d by (simp add: activityCheck_changes)
qed

lemma activityCheck_idle:
  assumes "usersData st = Some us" and "\<not> list_ex (awayDue now) us"
  shows "activityCheck st now = st"
  using assms by (simp add: activityCheck_def Let_def)

lemma heartbeatFilter_step:
  "heartbeatFilter now (s, kept) x =
     (if offlineDue now x then (broadcastMessage s (LeaveMsg (user_id x)), kept)
      else (s, kept @ [x]))"
  by (simp add: heartbeatFilter_def)

lemma heartbeat_foldl:
  "snd (foldl (heartbeatFilter now) (s, kept) xs) = kept @ filter (\<lambda>u. \<not> offlineDue now u) xs"
  by (induction xs arbitrary: s kept) (simp_all add: heartbeatFilter_step)

lemma heartbeat_foldl_sent_mono:
  "set (sent s) \<subseteq> set (sent (fst (foldl (heartbeatFilter now) (s, kept) xs)))"
proof (induction xs arbitrary: s kept)
  case Nil
  then show ?case by simp
next
  case (Cons x xs)
  show ?case
  proof (cases "offlineDue now x")
    case True
    obtain rest where r: "sent (broadcastMessage s (LeaveMsg (user_id x))) = sent s @ LeaveMsg (user_id x) # rest"
      using sent_broadcastMessage by blast
    have "set (sent (broadcastMessage s (LeaveMsg (user_id x))))
        \<subseteq> set (sent (fst (foldl (heartbeatFilter now) (broadcastMessage s (LeaveMsg (user_id x)), kept) xs)))"
      by (rule Cons.IH)
    then show ?thesis using True r by (auto simp: heartbeatFilter_step)
  next
    case False
    then show ?thesis using Cons.IH [of s "kept @ [x]"] by (simp add: heartbeatFilter_step)
  qed
qed

lemma heartbeat_foldl_leave:
  "u \<in> set xs \<Longrightarrow> offlineDue now u \<Longrightarrow>
   LeaveMsg (user_id u) \<in> set (sent (fst (foldl (heartbeatFilter now) (s, kept) xs)))"
proof (induction xs arbitrary: s kept)
  case Nil
  then show ?case by simp
next
  case (Cons x xs)
  show ?case
  proof (cases "u = x")
    case True
    obtain rest where r: "sent (broadcastMessage s (LeaveMsg (user_id x))) = sent s @ LeaveMsg (user_id x) # rest"
      using sent_broadcastMessage by blast
    then have "LeaveMsg (user_id x) \<in> set (sent (broadcastMessage s (LeaveMsg (user_id x))))" by simp
    then have "LeaveMsg (user_id x) \<in> set (sent (fst (foldl (heartbeatFilter now) (broadcastMessage s (LeaveMsg (user_id x)), kept) xs)))"
      using heartbeat_foldl_sent_mono by blast
    then show ?thesis using True Cons.prems(2) by (simp add: heartbeatFilter_step)
  next
    case False
    then have "u \<in> set xs" using Cons.prems(1) by simp
    then show ?thesis using Cons.IH Cons.prems(2) by (simp add: heartbeatFilter_step)
  qed
qed

lemma sendHeartbeat_result:
  assumes "usersData st = Some us"
  shows "\<exists>us'. usersData (sendHeartbeat st uid now) = Some us'
      \<and> map user_id us' = map user_id (filter (\<lambda>u. \<not> offlineDue now u)
            (map (\<lambda>user. if user_id user = uid then user\<lparr>lastActive := Some now\<rparr> else user) us))"
  using assms
  by (simp add: sendHeartbeat_def Let_def heartbeat_foldl broadcastMessage_Sync comp_def)

lemma sendHeartbeat_leave:
  assumes "usersData st = Some us"
    and "u \<in> set (map (\<lambda>user. if user_id user = uid then user\<lparr>lastActive := Some now\<rparr> else user) us)"
    and "offlineDue now u"
  shows "LeaveMsg (user_id u) \<in> set (sent (sendHeartbeat st uid now))"
proof -
  let ?upd = "map (\<lambda>user. if user_id user = uid then user\<lparr>lastActive := Some now\<rparr> else user) us"
  have l: "LeaveMsg (user_id u) \<in> set (sent (fst (foldl (heartbeatFilter now) (st, []) ?upd)))"
    using assms(2,3) by (rule heartbeat_foldl_leave)
  show ?thesis
    using assms(1) l by (simp add: sendHeartbeat_def Let_def broadcastMessage_Sync)
qed

lemma filter_same_length: "length (filter P xs) = length xs \<Longrightarrow> filter P xs = xs"
  by (metis filter_id_conv length_filter_less less_irrefl)

lemma cleanupOfflineUsers_result:
  assumes "usersData st = Some us"
  shows "(\<exists>us'. usersData (cleanupOfflineUsers st now) = Some us'
            \<and> map user_id us' = map user_id (filter (cleanupKeeps now) us))
       \<and> sent (cleanupOfflineUsers st now)
           = sent st @ (if length (filter (cleanupKeeps now) us) \<noteq> length us
                        then [SyncMsg (filter (cleanupKeeps now) us)] else [])"
proof (cases "length (filter (cleanupKeeps now) us) = length us")
  case True
  then have "filter (cleanupKeeps now) us = us"
    by (rule filter_same_length)
  then show ?thesis
    using assms by (simp add: cleanupOfflineUsers_def Let_def)
next
  case False
  then show ?thesis
    using assms by (simp add: cleanupOfflineUsers_def Let_def broadcastMessage_Sync comp_def)
qed

lemma removal_conditions:
  assumes "lastActive u = Some t" and "t \<noteq> 0"
  shows "(offlineDue now u \<longleftrightarrow> now - t > 300000)
       \<and> (cleanupKeeps now u \<longleftrightarrow> now - t \<le> 300000 \<and> (status u = AWAY \<longrightarrow> now - t \<le> 120000))"
  using assms by (auto simp: offlineDue_def cleanupKeeps_def truthy_num_def OFFLINE_TIMEOUT_def)

text \<open>
  Claim C6, as the code has it.  \<open>AWAY_TIMEOUT\<close> is 30 seconds and \<open>OFFLINE_TIMEOUT\<close>
  5 minutes.  The periodic activity check sets an \<open>ONLINE\<close> participant whose last
  activity is more than \<open>AWAY_TIMEOUT\<close> old to \<open>AWAY\<close>, leaves the time of its last
  activity as it is and broadcasts the list.  The heartbeat of a participant keeps
  exactly the participants whose last activity, after the refresh of the sender, is
  present and at most \<open>OFFLINE_TIMEOUT\<close> old, and broadcasts a leave message for
  every other participant that it drops.  The periodic cleanup keeps exactly the
  participants whose last activity is present and at most \<open>OFFLINE_TIMEOUT\<close> old and,
  for an \<open>AWAY\<close> participant, at most 2 minutes old; what it broadcasts is the
  remaining list when a participant was dropped, and nothing else.
\<close>

theorem presence_timeouts:
  "AWAY_TIMEOUT = 30000 \<and> OFFLINE_TIMEOUT = 300000
   \<and> (usersData st = Some us \<and> i < length us \<and> status (us ! i) = ONLINE
        \<and> lastActive (us ! i) = Some t \<and> t \<noteq> 0 \<and> now - t > AWAY_TIMEOUT
       \<longrightarrow> (\<exists>us'. usersData (activityCheck st now) = Some us' \<and> length us' = length us
              \<and> user_id (us' ! i) = user_id (us ! i) \<and> lastActive (us' ! i) = Some t
              \<and> status (us' ! i) = AWAY \<and> SyncMsg us' \<in> set (sent (activityCheck st now))))
   \<and> (usersData st = Some us
       \<longrightarrow> (\<exists>us'. usersData (sendHeartbeat st uid now) = Some us'
              \<and> map user_id us' = map user_id (filter (\<lambda>u. \<not> offlineDue now u)
                   (map (\<lambda>user. if user_id user = uid then user\<lparr>lastActive := Some now\<rparr> else user) us)))
           \<and> (\<forall>u\<in>set us. user_id u \<noteq> uid \<and> offlineDue now u
                 \<longrightarrow> LeaveMsg (user_id u) \<in> set (sent (sendHeartbeat st uid now)))
           \<and> (\<exists>us'. usersData (cleanupOfflineUsers st now) = Some us'
                 \<and> map user_id us' = map user_id (filter (cleanupKeeps now) us))
           \<and> sent (cleanupOfflineUsers st now)
                = sent st @ (if length (filter (cleanupKeeps now) us) \<noteq> length us
                             then [SyncMsg (filter (cleanupKeeps now) us)] else []))
   \<and> (lastActive u = Some t \<and> t \<noteq> 0
       \<longrightarrow> (offlineDue now u \<longleftrightarrow> now - t > 300000)
           \<and> (cleanupKeeps now u \<longleftrightarrow> now - t \<le> 300000 \<and> (status u = AWAY \<longrightarrow> now - t \<le> 120000)))"
proof (intro conjI impI ballI)
  show "AWAY_TIMEOUT = 30000" by (simp add: AWAY_TIMEOUT_def)
  show "OFFLINE_TIMEOUT = 300000" by (simp add: OFFLINE_TIMEOUT_def)
next
  assume "usersData st = Some us \<and> i < length us \<and> status (us ! i) = ONLINE
        \<and> lastActive (us ! i) = Some t \<and> t \<noteq> 0 \<and> now - t > AWAY_TIMEOUT"
  then show "\<exists>us'. usersData (activityCheck st now) = Some us' \<and> length us' = length us
              \<and> user_id (us' ! i) = user_id (us ! i) \<and> lastActive (us' ! i) = Some t
              \<and> status (us' ! i) = AWAY \<and> SyncMsg us' \<in> set (sent (activityCheck st now))"
    by (intro activityCheck_away) simp_all
next
  assume "usersData st = Some us"
  then show "\<exists>us'. usersData (sendHeartbeat st uid now) = Some us'
              \<and> map user_id us' = map user_id (filter (\<lambda>u. \<not> offlineDue now u)
                   (map (\<lambda>user. if user_id user = uid then user\<lparr>lastActive := Some now\<rparr> else user) us))"
    by (rule sendHeartbeat_result)
next
  fix v
  assume s: "usersData st = Some us" and v: "v \<in> set us" and o: "user_id v \<noteq> uid \<and> offlineDue now v"
  have "v \<in> (\<lambda>user. if user_id user = uid then user\<lparr>lastActive := Some now\<rparr> else user) ` set us"
    using v o by (intro image_eqI [of _ _ v]) simp_all
  then have "v \<in> set (map (\<lambda>user. if user_id user = uid then user\<lparr>lastActive := Some now\<rparr> else user) us)"
    by simp
  then show "LeaveMsg (user_id v) \<in> set (sent (sendHeartbeat st uid now))"
    using s o by (intro sendHeartbeat_leave) simp_all
next
  assume "usersData st = Some us"
  then show "\<exists>us'. usersData (cleanupOfflineUsers st now) = Some us'
                 \<and> map user_id us' = map user_id (filter (cleanupKeeps now) us)"
    using cleanupOfflineUsers_result [of st us now] by blast
next
  assume "usersData st = Some us"
  then show "sent (cleanupOfflineUsers st now)
                = sent st @ (if length (filter (cleanupKeeps now) us) \<noteq> length us
                             then [SyncMsg (filter (cleanupKeeps now) us)] else [])"
    using cleanupOfflineUsers_result [of st us now] by blast
next
  assume a: "lastActive u = Some t \<and> t \<noteq> 0"
  then show "offlineDue now u \<longleftrightarrow> now - t > 300000"
    using removal_conditions [of u t now] by blast
  show "cleanupKeeps now u \<longleftrightarrow> now - t \<le> 300000 \<and> (status u = AWAY \<longrightarrow> now - t \<le> 120000)"
    using a removal_conditions [of u t now] by blast
qed

theorem presence_timeouts_witness:
  "(\<exists>us'. usersData (activityCheck twoClients 302000) = Some us' \<and> length us' = 2
       \<and> user_id (us' ! 0) = ''u1'' \<and> lastActive (us' ! 0) = Some 1000
       \<and> status (us' ! 0) = AWAY \<and> SyncMsg us' \<in> set (sent (activityCheck twoClients 302000)))
   \<and> LeaveMsg ''u2'' \<in> set (sent (sendHeartbeat twoClients ''u1'' 302000))
   \<and> sent (cleanupOfflineUsers twoClients 302000) = [SyncMsg []]"
proof -
  let ?bob = "(participant ''u2'' ''bob'')\<lparr>status := AWAY\<rparr>"
  let ?us = "[participant ''u1'' ''ann'', ?bob]"
  note t = presence_timeouts [where st = twoClients and i = 0 and t = 1000 and now = 302000
      and uid = "''u1''" and u = ?bob and us = ?us]
  have st: "usersData twoClients = Some ?us"
    by (simp add: twoClients_def)
  have h: "usersData twoClients = Some ?us \<and> 0 < length ?us \<and> status (?us ! 0) = ONLINE
        \<and> lastActive (?us ! 0) = Some 1000 \<and> (1000::int) \<noteq> 0 \<and> 302000 - 1000 > AWAY_TIMEOUT"
    by (simp add: twoClients_def participant_def AWAY_TIMEOUT_def)
  have b: "user_id ?bob \<noteq> ''u1'' \<and> offlineDue 302000 ?bob"
    by (simp add: participant_def offlineDue_def truthy_num_def OFFLINE_TIMEOUT_def)
  have k: "filter (cleanupKeeps 302000) ?us = []"
    by (simp add: participant_def cleanupKeeps_def offlineDue_def truthy_num_def OFFLINE_TIMEOUT_def)
  have c1: "\<exists>us'. usersData (activityCheck twoClients 302000) = Some us' \<and> length us' = length ?us
              \<and> user_id (us' ! 0) = user_id (?us ! 0) \<and> lastActive (us' ! 0) = Some 1000
              \<and> status (us' ! 0) = AWAY \<and> SyncMsg us' \<in> set (sent (activityCheck twoClients 302000))"
    using t [THEN conjunct2, THEN conjunct2, THEN conjunct1, THEN mp, OF h] .
  note r = t [THEN conjunct2, THEN conjunct2, THEN conjunct2, THEN conjunct1, THEN mp, OF st]
  have c2: "LeaveMsg (user_id ?bob) \<in> set (sent (sendHeartbeat twoClients ''u1'' 302000))"
    using r [THEN conjunct2, THEN conjunct1, THEN bspec, of ?bob] b by simp
  have c3: "sent (cleanupOfflineUsers twoClients 302000)
                = sent twoClients @ (if length (filter (cleanupKeeps 302000) ?us) \<noteq> length ?us
                             then [SyncMsg (filter (cleanupKeeps 302000) ?us)] else [])"
    using r [THEN conjunct2, THEN conjunct2, THEN conjunct2] .
  have c3': "sent (cleanupOfflineUsers twoClients 302000) = [SyncMsg []]"
    using c3 unfolding k by (simp add: twoClients_def)
  have c1': "\<exists>us'. usersData (activityCheck twoClients 302000) = Some us' \<and> length us' = 2
       \<and> user_id (us' ! 0) = ''u1'' \<and> lastActive (us' ! 0) = Some 1000
       \<and> status (us' ! 0) = AWAY \<and> SyncMsg us' \<in> set (sent (activityCheck twoClients 302000))"
    using c1 by (simp add: participant_def numeral_2_eq_2)
  have c2': "LeaveMsg ''u2'' \<in> set (sent (sendHeartbeat twoClients ''u1'' 302000))"
    using c2 by (simp add: participant_def)
  show ?thesis
    using c1' c2' c3' by (intro conjI)
qed

text \<open>
  Claim C6 as stated fails in the cleanup: an \<open>AWAY\<close> participant whose last activity
  is 121 seconds old, far less than \<open>AWAY_TIMEOUT\<close> and \<open>OFFLINE_TIMEOUT\<close> together, is
  removed, and the only message broadcast is the list, no leave message.
\<close>

theorem cleanup_away_counterexample:
  "cleanupOfflineUsers
     \<lparr>usersData = Some [\<lparr>user_id = ''u2'', user_name = ''bob'', color = Some ''#F44336'',
         status = AWAY, lastActive = Some 1000, socketId = None, cursorPosition = None,
         selection = None\<rparr>], sent = []\<rparr> 122000
   = \<lparr>usersData = Some [], sent = [SyncMsg []]\<rparr>
   \<and> 122000 - 1000 < AWAY_TIMEOUT + OFFLINE_TIMEOUT"
  by (simp add: cleanupOfflineUsers_def cleanupKeeps_def offlineDue_def truthy_num_def
        OFFLINE_TIMEOUT_def AWAY_TIMEOUT_def broadcastMessage_def receiveMessage_def
        receiveSync_def)

end
